theory Spec2Isabelle
  imports Complex_Main "HOL-Library.AList" "HOL-Library.Char_ord" "HOL-Library.List_Lexorder"
begin

section \<open>Python values\<close>

text \<open>
  The script \<^verbatim>\<open>scripts/query_api_example.py\<close> handles whatever \<^verbatim>\<open>response.json()\<close>
  returns, so its values are modelled by one type of Python values. A \<open>dict\<close> is an
  association list in insertion order whose keys are strings (JSON object keys always
  are) and are distinct; lookups go through \<open>map_of\<close>. One \<open>char\<close> stands for one
  character of a Python \<open>str\<close>. A \<open>float\<close> is carried as the real number it denotes;
  nothing below computes with it.
\<close>

datatype pyval =
    PNone
  | PBool bool
  | PInt int
  | PFloat real
  | PStr string
  | PList "pyval list"
  | PDict "(string \<times> pyval) list"

text \<open>Every exception the script can meet is a value; none is caught anywhere in it.\<close>

datatype error =
    ConnectionError
  | JSONDecodeError
  | AttributeError
  | TypeError
  | KeyError
  | ValueError
  | IndexError

text \<open>Truth value testing, as \<^verbatim>\<open>if x:\<close> and \<^verbatim>\<open>not x\<close> do it.\<close>

fun truthy :: "pyval \<Rightarrow> bool" where
  "truthy PNone = False"
| "truthy (PBool b) = b"
| "truthy (PInt i) = (i \<noteq> 0)"
| "truthy (PFloat x) = (x \<noteq> 0)"
| "truthy (PStr s) = (s \<noteq> [])"
| "truthy (PList xs) = (xs \<noteq> [])"
| "truthy (PDict kvs) = (kvs \<noteq> [])"

text \<open>An \<^verbatim>\<open>Optional[T]\<close> argument as a Python value: \<^verbatim>\<open>None\<close> or the value.\<close>

definition py_opt :: "('a \<Rightarrow> pyval) \<Rightarrow> 'a option \<Rightarrow> pyval" where
  "py_opt f x = (case x of None \<Rightarrow> PNone | Some a \<Rightarrow> f a)"

text \<open>\<^verbatim>\<open>obj.get(key, default)\<close>: only a dict has the method.\<close>

fun py_get :: "pyval \<Rightarrow> string \<Rightarrow> pyval \<Rightarrow> error + pyval" where
  "py_get (PDict kvs) k d = Inr (case map_of kvs k of None \<Rightarrow> d | Some v \<Rightarrow> v)"
| "py_get _ k d = Inl AttributeError"

text \<open>\<^verbatim>\<open>obj[key]\<close> with a string key.\<close>

fun py_getitem :: "pyval \<Rightarrow> string \<Rightarrow> error + pyval" where
  "py_getitem (PDict kvs) k = (case map_of kvs k of None \<Rightarrow> Inl KeyError | Some v \<Rightarrow> Inr v)"
| "py_getitem _ k = Inl TypeError"

text \<open>\<^verbatim>\<open>obj[0]\<close>. A dict has no key \<open>0\<close>, its keys being strings.\<close>

fun py_getitem0 :: "pyval \<Rightarrow> error + pyval" where
  "py_getitem0 (PList xs) = (case xs of [] \<Rightarrow> Inl IndexError | x # _ \<Rightarrow> Inr x)"
| "py_getitem0 (PStr s) = (case s of [] \<Rightarrow> Inl IndexError | c # _ \<Rightarrow> Inr (PStr [c]))"
| "py_getitem0 (PDict kvs) = Inl KeyError"
| "py_getitem0 _ = Inl TypeError"

text \<open>
  \<^verbatim>\<open>obj[:n]\<close>. Slicing a dict raises (\<open>TypeError\<close> before Python 3.12, \<open>KeyError\<close>
  from 3.12 on; the model takes the former).
\<close>

fun py_slice_to :: "nat \<Rightarrow> pyval \<Rightarrow> error + pyval" where
  "py_slice_to n (PStr s) = Inr (PStr (take n s))"
| "py_slice_to n (PList xs) = Inr (PList (take n xs))"
| "py_slice_to n _ = Inl TypeError"

text \<open>\<^verbatim>\<open>len(obj)\<close>.\<close>

fun py_len :: "pyval \<Rightarrow> error + nat" where
  "py_len (PStr s) = Inr (length s)"
| "py_len (PList xs) = Inr (length xs)"
| "py_len (PDict kvs) = Inr (length kvs)"
| "py_len _ = Inl TypeError"

text \<open>The elements a \<^verbatim>\<open>for\<close> loop runs over; a dict yields its keys.\<close>

fun py_iter :: "pyval \<Rightarrow> error + pyval list" where
  "py_iter (PList xs) = Inr xs"
| "py_iter (PDict kvs) = Inr (map (\<lambda>kv. PStr (fst kv)) kvs)"
| "py_iter (PStr s) = Inr (map (\<lambda>c. PStr [c]) s)"
| "py_iter _ = Inl TypeError"

text \<open>\<^verbatim>\<open>sorted(obj.items())\<close>: the keys being distinct, the pairs are ordered by key.\<close>

fun py_sorted_items :: "pyval \<Rightarrow> error + (string \<times> pyval) list" where
  "py_sorted_items (PDict kvs) = Inr (sort_key fst kvs)"
| "py_sorted_items _ = Inl AttributeError"

subsection \<open>String methods, on ASCII letters\<close>

definition upper_char :: "char \<Rightarrow> char" where
  "upper_char c =
     (if CHR ''a'' \<le> c \<and> c \<le> CHR ''z'' then char_of (of_char c - (32::nat)) else c)"

definition lower_char :: "char \<Rightarrow> char" where
  "lower_char c =
     (if CHR ''A'' \<le> c \<and> c \<le> CHR ''Z'' then char_of (of_char c + (32::nat)) else c)"

definition is_lower :: "char \<Rightarrow> bool" where
  "is_lower c = (CHR ''a'' \<le> c \<and> c \<le> CHR ''z'')"

definition is_upper :: "char \<Rightarrow> bool" where
  "is_upper c = (CHR ''A'' \<le> c \<and> c \<le> CHR ''Z'')"

text \<open>\<^verbatim>\<open>s.upper()\<close>\<close>

definition upper :: "string \<Rightarrow> string" where
  "upper s = map upper_char s"

text \<open>\<^verbatim>\<open>s.replace("_ms", "")\<close>: every occurrence, left to right.\<close>

fun replace_ms :: "string \<Rightarrow> string" where
  "replace_ms (a # b # c # cs) =
     (if a = CHR ''_'' \<and> b = CHR ''m'' \<and> c = CHR ''s'' then replace_ms cs
      else a # replace_ms (b # c # cs))"
| "replace_ms cs = cs"

text \<open>\<^verbatim>\<open>s.replace("_", " ")\<close>\<close>

definition replace_underscore :: "string \<Rightarrow> string" where
  "replace_underscore s = map (\<lambda>c. if c = CHR ''_'' then CHR '' '' else c) s"

text \<open>
  \<^verbatim>\<open>s.title()\<close>: a letter that follows a letter is lowered, any other letter is raised.
  The flag says whether the previous character was a letter.
\<close>

fun title_from :: "bool \<Rightarrow> string \<Rightarrow> string" where
  "title_from prev [] = []"
| "title_from prev (c # cs) =
     (if is_lower c then (if prev then c else upper_char c) # title_from True cs
      else if is_upper c then (if prev then lower_char c else c) # title_from True cs
      else c # title_from False cs)"

definition title :: "string \<Rightarrow> string" where
  "title s = title_from False s"

section \<open>Console, network and module state\<close>

text \<open>
  A printed line is kept as the parts of its f-string: literal text, an interpolated
  value (\<^verbatim>\<open>{v}\<close>, or the argument of \<^verbatim>\<open>print(v)\<close>), and a number under the format
  \<^verbatim>\<open>:.3f\<close>. How \<^verbatim>\<open>str\<close> renders a value is not modelled. \<open>Rule n\<close> is \<open>n\<close> copies of the
  box-drawing character U+2500 that the script rules its output with.
\<close>

datatype piece = Lit string | Str pyval | Fix3 pyval | Rule nat

type_synonym line = "piece list"

text \<open>
  \<^verbatim>\<open>f"{v:.3f}"\<close>: \<open>int\<close>, \<open>bool\<close> and \<open>float\<close> accept the format code; \<open>str\<close> rejects
  it with \<open>ValueError\<close>, every other type with \<open>TypeError\<close>.
\<close>

fun format_3f :: "pyval \<Rightarrow> error + piece" where
  "format_3f (PInt i) = Inr (Fix3 (PInt i))"
| "format_3f (PBool b) = Inr (Fix3 (PBool b))"
| "format_3f (PFloat x) = Inr (Fix3 (PFloat x))"
| "format_3f (PStr s) = Inl ValueError"
| "format_3f _ = Inl TypeError"

datatype http_method = GET | POST

record request =
  req_method :: http_method
  req_url :: string
  req_headers :: "(string \<times> string) list"
  req_json :: "(string \<times> pyval) list option"

text \<open>
  A response carries its status, its body text, and what \<^verbatim>\<open>response.json()\<close> makes of
  the body: \<open>None\<close> when the body is not JSON. Parsing itself is the library's.
\<close>

record response =
  status_code :: int
  resp_text :: string
  resp_json :: "pyval option"

datatype reply = Transport_failure | Reply response

text \<open>
  What the script cannot control: the server, whose reply to a request may depend on
  all the requests sent before it; the identifiers \<^verbatim>\<open>uuid.uuid4()\<close> returns, by the
  number of earlier calls; and the process environment.
\<close>

record env =
  server :: "request list \<Rightarrow> request \<Rightarrow> reply"
  uuid4 :: "nat \<Rightarrow> string"
  environ :: "string \<Rightarrow> string option"

text \<open>
  The state the script changes: the lines printed, the requests issued, the number of
  calls of \<^verbatim>\<open>uuid.uuid4()\<close>, and the module's globals.
\<close>

record state =
  stdout :: "line list"
  sent :: "request list"
  uuid_calls :: nat
  BASE_URL :: string
  API_KEY :: string
  NOTEBOOK_ID :: string
  HEADERS :: "(string \<times> string) list"

text \<open>
  A statement runs from a state to a state, and either returns a value or raises.
  An exception that leaves \<^verbatim>\<open>main\<close> ends the process with a traceback.
\<close>

type_synonym 'a io = "state \<Rightarrow> (error + 'a) \<times> state"

definition ret :: "'a \<Rightarrow> 'a io" where
  "ret x = (\<lambda>st. (Inr x, st))"

definition lift :: "error + 'a \<Rightarrow> 'a io" where
  "lift r = (\<lambda>st. (r, st))"

definition bind :: "'a io \<Rightarrow> ('a \<Rightarrow> 'b io) \<Rightarrow> 'b io" where
  "bind m f = (\<lambda>st. case m st of (Inl e, st') \<Rightarrow> (Inl e, st') | (Inr x, st') \<Rightarrow> f x st')"

definition seq :: "unit io \<Rightarrow> 'a io \<Rightarrow> 'a io" where
  "seq m n = bind m (\<lambda>_. n)"

fun block :: "unit io list \<Rightarrow> unit io" where
  "block [] = ret ()"
| "block (m # ms) = seq m (block ms)"

definition when_do :: "bool \<Rightarrow> unit io \<Rightarrow> unit io" where
  "when_do b m = (if b then m else ret ())"

fun for_each :: "'a list \<Rightarrow> ('a \<Rightarrow> unit io) \<Rightarrow> unit io" where
  "for_each [] body = ret ()"
| "for_each (x # xs) body = seq (body x) (for_each xs body)"

definition read :: "(state \<Rightarrow> 'a) \<Rightarrow> 'a io" where
  "read f = (\<lambda>st. (Inr (f st), st))"

definition print :: "line \<Rightarrow> unit io" where
  "print l = (\<lambda>st. (Inr (), st\<lparr>stdout := stdout st @ [l]\<rparr>))"

definition nl :: string where
  "nl = [CHR 0x0A]"

definition bar :: string where
  "bar = replicate 60 (CHR ''='')"

text \<open>
  \<^verbatim>\<open>requests.get\<close> and \<^verbatim>\<open>requests.post\<close>: the request is issued, and the server's
  reply comes back or the transport fails.
\<close>

definition http :: "env \<Rightarrow> request \<Rightarrow> response io" where
  "http e r = (\<lambda>st.
     (case server e (sent st) r of
        Transport_failure \<Rightarrow> Inl ConnectionError
      | Reply resp \<Rightarrow> Inr resp,
      st\<lparr>sent := sent st @ [r]\<rparr>))"

definition requests_get :: "env \<Rightarrow> string \<Rightarrow> (string \<times> string) list \<Rightarrow> response io" where
  "requests_get e u h = http e \<lparr>req_method = GET, req_url = u, req_headers = h, req_json = None\<rparr>"

definition requests_post ::
  "env \<Rightarrow> string \<Rightarrow> (string \<times> string) list \<Rightarrow> (string \<times> pyval) list \<Rightarrow> response io" where
  "requests_post e u h payload =
     http e \<lparr>req_method = POST, req_url = u, req_headers = h, req_json = Some payload\<rparr>"

definition response_json :: "response \<Rightarrow> pyval io" where
  "response_json r = lift (case resp_json r of None \<Rightarrow> Inl JSONDecodeError | Some v \<Rightarrow> Inr v)"

text \<open>\<^verbatim>\<open>str(uuid.uuid4())\<close>\<close>

definition uuid4_str :: "env \<Rightarrow> string io" where
  "uuid4_str e = (\<lambda>st. (Inr (uuid4 e (uuid_calls st)), st\<lparr>uuid_calls := Suc (uuid_calls st)\<rparr>))"

text \<open>A list comprehension whose element expression may raise.\<close>

fun comprehension :: "('a \<Rightarrow> error + 'b) \<Rightarrow> 'a list \<Rightarrow> error + 'b list" where
  "comprehension f [] = Inr []"
| "comprehension f (x # xs) =
     (case f x of
        Inl err \<Rightarrow> Inl err
      | Inr y \<Rightarrow> (case comprehension f xs of Inl err \<Rightarrow> Inl err | Inr ys \<Rightarrow> Inr (y # ys)))"

section \<open>The script\<close>

subsection \<open>Module level (lines 95 to 114)\<close>

definition getenv :: "env \<Rightarrow> string \<Rightarrow> string \<Rightarrow> string" where
  "getenv e name dflt = (case environ e name of None \<Rightarrow> dflt | Some v \<Rightarrow> v)"

definition AVAILABLE_MODELS :: "(string \<times> string list) list" where
  "AVAILABLE_MODELS =
     [(''openai'', [''gpt-4.1-mini'', ''gpt-4.1'', ''gpt-4o'', ''gpt-4o-mini'']),
      (''groq'', [''meta-llama/llama-4-maverick-17b-128e-instruct'', ''llama-3.3-70b-versatile'']),
      (''ollama'', [''llama3.1:latest'', ''mistral:latest'', ''qwen2.5:latest'']),
      (''anthropic'', [''claude-sonnet-4-20250514'', ''claude-3-5-haiku-latest'']),
      (''gemini'', [''gemini-2.0-flash'', ''gemini-1.5-pro''])]"

definition make_headers :: "string \<Rightarrow> (string \<times> string) list" where
  "make_headers api_key = [(''X-API-Key'', api_key), (''Content-Type'', ''application/json'')]"

text \<open>The state once the module is loaded: nothing printed, nothing sent.\<close>

definition module_init :: "env \<Rightarrow> state" where
  "module_init e =
     (let base_url = getenv e ''DBNOTEBOOK_API_URL'' ''http://localhost:7860'';
          api_key = getenv e ''DBNOTEBOOK_API_KEY'' ''dbn_00000000000000000000000000000001'';
          notebook_id = getenv e ''DBNOTEBOOK_NOTEBOOK_ID'' ''18ee0c23-a2ce-4eb2-a56c-62a12dee964a''
      in \<lparr>stdout = [], sent = [], uuid_calls = 0,
          BASE_URL = base_url, API_KEY = api_key, NOTEBOOK_ID = notebook_id,
          HEADERS = make_headers api_key\<rparr>)"

subsection \<open>\<^verbatim>\<open>list_models\<close> (lines 117 to 126)\<close>

definition list_models :: "unit io" where
  "list_models =
     block
      [print [Lit (nl @ bar)],
       print [Lit ''Available Models''],
       print [Lit bar],
       for_each AVAILABLE_MODELS (\<lambda>(provider, models).
         seq (print [Lit nl, Str (PStr (upper provider)), Lit '':''])
             (for_each models (\<lambda>model. print [Lit ''  - '', Str (PStr model)]))),
       print []]"

subsection \<open>\<^verbatim>\<open>list_notebooks\<close> (lines 129 to 155)\<close>

definition print_notebook :: "pyval \<Rightarrow> unit io" where
  "print_notebook nb =
     bind (lift (py_getitem nb ''id'')) (\<lambda>v.
     seq (print [Lit ''  ID: '', Str v])
    (bind (lift (py_getitem nb ''name'')) (\<lambda>v.
     seq (print [Lit ''  Name: '', Str v])
    (bind (lift (py_getitem nb ''document_count'')) (\<lambda>v.
     seq (print [Lit ''  Documents: '', Str v])
    (bind (lift (py_getitem nb ''created_at'')) (\<lambda>v.
     seq (print [Lit ''  Created: '', Str v])
         (print []))))))))"

definition list_notebooks :: "env \<Rightarrow> pyval io" where
  "list_notebooks e =
     seq (block
           [print [Lit (nl @ bar)],
            print [Lit ''Listing Available Notebooks''],
            print [Lit bar]])
    (bind (read BASE_URL) (\<lambda>base_url.
     bind (read HEADERS) (\<lambda>hdrs.
     bind (requests_get e (base_url @ ''/api/query/notebooks'') hdrs) (\<lambda>response.
     if status_code response \<noteq> 200 then
       seq (print [Lit ''Error: '', Str (PInt (status_code response)), Lit '' - '',
                   Str (PStr (resp_text response))])
           (ret (PList []))
     else
       bind (response_json response) (\<lambda>data.
       bind (lift (py_get data ''notebooks'' (PList []))) (\<lambda>notebooks.
       bind (lift (py_len notebooks)) (\<lambda>n.
       seq (print [Lit (nl @ ''Found ''), Str (PInt (int n)), Lit ('' notebook(s):'' @ nl)])
      (bind (lift (py_iter notebooks)) (\<lambda>nbs.
       seq (for_each nbs print_notebook)
           (ret notebooks))))))))))"

subsection \<open>\<^verbatim>\<open>query_stateless\<close> (lines 158 to 252)\<close>

text \<open>
  The payload of lines 191 to 205. \<open>notebook_id\<close> is a Python value: \<^verbatim>\<open>main\<close> may
  pass the \<open>id\<close> of a listed notebook, which is whatever the server sent.
\<close>

definition stateless_payload ::
  "pyval \<Rightarrow> string \<Rightarrow> string option \<Rightarrow> int option \<Rightarrow> int \<Rightarrow> bool \<Rightarrow> bool \<Rightarrow> (string \<times> pyval) list" where
  "stateless_payload notebook_id query model top_k max_sources reranker_enabled skip_raptor =
     (let payload =
            [(''notebook_id'', notebook_id),
             (''query'', PStr query),
             (''include_sources'', PBool True),
             (''max_sources'', PInt max_sources)];
          payload = (if truthy (py_opt PStr model)
                     then AList.update ''model'' (py_opt PStr model) payload else payload);
          payload = (if truthy (py_opt PInt top_k)
                     then AList.update ''top_k'' (py_opt PInt top_k) payload else payload);
          payload = (if \<not> reranker_enabled
                     then AList.update ''reranker_enabled'' (PBool False) payload else payload);
          payload = (if \<not> skip_raptor
                     then AList.update ''skip_raptor'' (PBool False) payload else payload)
      in payload)"

text \<open>Lines 224 to 231.\<close>

definition print_metadata :: "pyval \<Rightarrow> unit io" where
  "print_metadata metadata =
     seq (print [Lit nl, Rule 60])
    (seq (print [Lit ''Metadata:''])
    (bind (lift (py_get metadata ''execution_time_ms'' (PStr ''N/A''))) (\<lambda>v.
     seq (print [Lit ''  Execution time: '', Str v, Lit ''ms''])
    (bind (lift (py_get metadata ''model'' (PStr ''N/A''))) (\<lambda>v.
     seq (print [Lit ''  Model: '', Str v])
    (bind (lift (py_get metadata ''stateless'' (PStr ''N/A''))) (\<lambda>v.
     seq (print [Lit ''  Stateless: '', Str v])
    (bind (lift (py_get metadata ''node_count'' (PStr ''N/A''))) (\<lambda>v.
          print [Lit ''  Node count: '', Str v])))))))))"

text \<open>Lines 233 to 239.\<close>

definition print_timings :: "pyval \<Rightarrow> unit io" where
  "print_timings metadata =
     bind (lift (py_get metadata ''timings'' (PDict []))) (\<lambda>timings.
     when_do (truthy timings)
       (seq (print [Lit (nl @ ''  Timing Breakdown:'')])
       (bind (lift (py_sorted_items timings)) (\<lambda>items.
        for_each items (\<lambda>(key, val).
          let stage_name = title (replace_underscore (replace_ms key))
          in print [Lit ''    '', Str (PStr stage_name), Lit '': '', Str val, Lit ''ms''])))))"

text \<open>Lines 246 to 250, the body of the loop over the sources.\<close>

definition print_source :: "nat \<times> pyval \<Rightarrow> unit io" where
  "print_source = (\<lambda>(i, src).
     bind (lift (py_get src ''filename'' (PStr ''Unknown''))) (\<lambda>filename.
     seq (print [Lit (nl @ ''  [''), Str (PInt (int i)), Lit ''] '', Str filename])
    (bind (lift (py_get src ''score'' (PStr ''N/A''))) (\<lambda>score.
     bind (lift (format_3f score)) (\<lambda>shown.
     seq (print [Lit ''      Score: '', shown])
    (bind (lift (py_get src ''snippet'' (PStr []))) (\<lambda>whole.
     bind (lift (py_slice_to 200 whole)) (\<lambda>snippet.
          print [Lit ''      Snippet: '', Str snippet, Lit ''...'']))))))))"

text \<open>Lines 241 to 250.\<close>

definition print_sources :: "pyval \<Rightarrow> unit io" where
  "print_sources result =
     bind (lift (py_get result ''sources'' (PList []))) (\<lambda>sources.
     when_do (truthy sources)
       (seq (print [Lit nl, Rule 60])
       (bind (lift (py_len sources)) (\<lambda>n.
        seq (print [Lit ''Sources ('', Str (PInt (int n)), Lit ''):''])
       (bind (lift (py_iter sources)) (\<lambda>srcs.
        for_each (enumerate 1 srcs) print_source))))))"

text \<open>Lines 217 to 252: what is done with a response of status 200.\<close>

definition show_result :: "response \<Rightarrow> pyval io" where
  "show_result response =
     bind (response_json response) (\<lambda>result.
     seq (block [print [Lit nl, Rule 60], print [Lit ''Response:''], print [Rule 60]])
    (bind (lift (py_get result ''response'' (PStr ''No response''))) (\<lambda>answer.
     seq (print [Str answer])
    (bind (lift (py_get result ''metadata'' (PDict []))) (\<lambda>metadata.
     seq (print_metadata metadata)
    (seq (print_timings metadata)
    (seq (print_sources result)
         (ret result))))))))"

definition query_stateless ::
  "env \<Rightarrow> pyval \<Rightarrow> string \<Rightarrow> string option \<Rightarrow> int option \<Rightarrow> int \<Rightarrow> bool \<Rightarrow> bool \<Rightarrow> pyval io" where
  "query_stateless e notebook_id query model top_k max_sources reranker_enabled skip_raptor =
     seq (block
           [print [Lit (nl @ bar)],
            print [Lit ''Stateless Query (No Memory)''],
            print [Lit bar],
            print [Lit ''Query: '', Str (PStr query)],
            when_do (truthy (py_opt PStr model)) (print [Lit ''Model: '', Str (py_opt PStr model)]),
            when_do (truthy (py_opt PInt top_k)) (print [Lit ''Top-K: '', Str (py_opt PInt top_k)]),
            when_do (\<not> reranker_enabled) (print [Lit ''Reranker: disabled'']),
            when_do (\<not> skip_raptor) (print [Lit ''RAPTOR: enabled''])])
    (let payload =
           stateless_payload notebook_id query model top_k max_sources reranker_enabled skip_raptor
     in bind (read BASE_URL) (\<lambda>base_url.
        bind (read HEADERS) (\<lambda>hdrs.
        bind (requests_post e (base_url @ ''/api/query'') hdrs payload) (\<lambda>response.
        if status_code response \<noteq> 200 then
          seq (print [Lit (nl @ ''Error: ''), Str (PInt (status_code response)), Lit '' - '',
                      Str (PStr (resp_text response))])
              (ret PNone)
        else show_result response))))"

subsection \<open>\<^verbatim>\<open>query_conversational\<close> (lines 255 to 313)\<close>

text \<open>The payload of lines 285 to 295.\<close>

definition conversational_payload ::
  "pyval \<Rightarrow> string \<Rightarrow> string \<Rightarrow> string option \<Rightarrow> int \<Rightarrow> (string \<times> pyval) list" where
  "conversational_payload notebook_id query session_id model max_history =
     (let payload =
            [(''notebook_id'', notebook_id),
             (''query'', PStr query),
             (''session_id'', PStr session_id),
             (''include_sources'', PBool True),
             (''max_sources'', PInt 2),
             (''max_history'', PInt max_history)];
          payload = (if truthy (py_opt PStr model)
                     then AList.update ''model'' (py_opt PStr model) payload else payload)
      in payload)"

text \<open>
  Lines 281 to 313, the body of the loop over the turns. \<^verbatim>\<open>continue\<close> ends the body
  after the error line.
\<close>

definition conversational_turn ::
  "env \<Rightarrow> pyval \<Rightarrow> string \<Rightarrow> string option \<Rightarrow> int \<Rightarrow> nat \<times> string \<Rightarrow> unit io" where
  "conversational_turn e notebook_id session_id model max_history = (\<lambda>(i, query).
     seq (block
           [print [Lit nl, Rule 60],
            print [Lit ''Turn '', Str (PInt (int i)), Lit '': '', Str (PStr query)],
            print [Rule 60]])
    (let payload = conversational_payload notebook_id query session_id model max_history
     in bind (read BASE_URL) (\<lambda>base_url.
        bind (read HEADERS) (\<lambda>hdrs.
        bind (requests_post e (base_url @ ''/api/query'') hdrs payload) (\<lambda>response.
        if status_code response \<noteq> 200 then
          print [Lit ''Error: '', Str (PInt (status_code response)), Lit '' - '',
                 Str (PStr (resp_text response))]
        else
          bind (response_json response) (\<lambda>result.
          bind (lift (py_get result ''metadata'' (PDict []))) (\<lambda>metadata.
          bind (lift (py_get result ''response'' (PStr ''No response''))) (\<lambda>answer.
          bind (lift (py_slice_to 500 answer)) (\<lambda>shown.
          seq (print [Lit (nl @ ''Response: ''), Str shown, Lit ''...''])
         (bind (lift (py_get metadata ''history_messages_used'' (PInt 0))) (\<lambda>v.
          seq (print [Lit (nl @ ''History used: ''), Str v, Lit '' messages''])
         (bind (lift (py_get metadata ''stateless'' (PStr ''N/A''))) (\<lambda>v.
          seq (print [Lit ''Stateless: '', Str v])
         (bind (lift (py_get metadata ''execution_time_ms'' (PStr ''N/A''))) (\<lambda>v.
               print [Lit ''Execution time: '', Str v, Lit ''ms''])))))))))))))))"

definition query_conversational ::
  "env \<Rightarrow> pyval \<Rightarrow> string list \<Rightarrow> string option \<Rightarrow> int \<Rightarrow> unit io" where
  "query_conversational e notebook_id queries model max_history =
     seq (block
           [print [Lit (nl @ bar)],
            print [Lit ''Conversational Queries (With Memory)''],
            print [Lit bar]])
    (bind (uuid4_str e) (\<lambda>session_id.
     seq (block
           [print [Lit ''Session ID: '', Str (PStr session_id)],
            when_do (truthy (py_opt PStr model)) (print [Lit ''Model: '', Str (py_opt PStr model)]),
            print [Lit ''Max History: '', Str (PInt max_history)]])
         (for_each (enumerate 1 queries)
            (conversational_turn e notebook_id session_id model max_history))))"

subsection \<open>\<^verbatim>\<open>parse_args\<close> (lines 316 to 418)\<close>

text \<open>
  The command line as \<^verbatim>\<open>argparse\<close> reads it: for an option with a value, the value
  when the option is given; for a \<^verbatim>\<open>store_true\<close> flag, whether it is given. A command
  line that \<^verbatim>\<open>argparse\<close> rejects never reaches the script's code.
\<close>

record cli =
  cli_model :: "string option"
  cli_notebook :: "string option"
  cli_query :: "string option"
  cli_url :: "string option"
  cli_api_key :: "string option"
  cli_list_models :: bool
  cli_list_notebooks :: bool
  cli_no_demo :: bool
  cli_top_k :: "int option"
  cli_max_sources :: "int option"
  cli_no_reranker :: bool
  cli_include_raptor :: bool
  cli_max_history :: "int option"

text \<open>The namespace \<^verbatim>\<open>parse_args\<close> returns.\<close>

record args =
  arg_model :: "string option"
  arg_notebook :: string
  arg_query :: "string option"
  arg_url :: string
  arg_api_key :: string
  arg_list_models :: bool
  arg_list_notebooks :: bool
  arg_no_demo :: bool
  arg_top_k :: "int option"
  arg_max_sources :: int
  arg_no_reranker :: bool
  arg_include_raptor :: bool
  arg_max_history :: int

text \<open>
  An option that is not given takes its \<^verbatim>\<open>default=\<close>; three of the defaults are the
  module's globals, read when the parser is built. \<^verbatim>\<open>parse_args\<close> changes nothing.
\<close>

definition parse_args :: "cli \<Rightarrow> state \<Rightarrow> args" where
  "parse_args c st =
     \<lparr>arg_model = cli_model c,
      arg_notebook = (case cli_notebook c of None \<Rightarrow> NOTEBOOK_ID st | Some v \<Rightarrow> v),
      arg_query = cli_query c,
      arg_url = (case cli_url c of None \<Rightarrow> BASE_URL st | Some v \<Rightarrow> v),
      arg_api_key = (case cli_api_key c of None \<Rightarrow> API_KEY st | Some v \<Rightarrow> v),
      arg_list_models = cli_list_models c,
      arg_list_notebooks = cli_list_notebooks c,
      arg_no_demo = cli_no_demo c,
      arg_top_k = cli_top_k c,
      arg_max_sources = (case cli_max_sources c of None \<Rightarrow> 6 | Some v \<Rightarrow> v),
      arg_no_reranker = cli_no_reranker c,
      arg_include_raptor = cli_include_raptor c,
      arg_max_history = (case cli_max_history c of None \<Rightarrow> 5 | Some v \<Rightarrow> v)\<rparr>"

subsection \<open>\<^verbatim>\<open>main\<close> (lines 421 to 513)\<close>

text \<open>Lines 425 to 432.\<close>

definition update_globals :: "args \<Rightarrow> unit io" where
  "update_globals a = (\<lambda>st.
     (Inr (), st\<lparr>BASE_URL := arg_url a, API_KEY := arg_api_key a,
                  HEADERS := make_headers (arg_api_key a)\<rparr>))"

text \<open>
  Lines 460 to 463, reached with a listing that is not empty: the notebook the queries
  go to.
\<close>

definition choose_notebook :: "args \<Rightarrow> pyval \<Rightarrow> pyval io" where
  "choose_notebook a notebooks =
     (let notebook_id = PStr (arg_notebook a)
      in bind (lift (py_iter notebooks)) (\<lambda>nbs.
         bind (lift (comprehension (\<lambda>nb. py_getitem nb ''id'') nbs)) (\<lambda>ids.
         if notebook_id \<notin> set ids then
           bind (lift (py_getitem0 notebooks)) (\<lambda>first.
           bind (lift (py_getitem first ''id'')) (\<lambda>notebook_id.
           seq (print [Lit (nl @ ''Specified notebook not found, using: ''), Str notebook_id])
               (ret notebook_id)))
         else ret notebook_id)))"

text \<open>Lines 486 to 513.\<close>

definition run_demo :: "env \<Rightarrow> args \<Rightarrow> pyval \<Rightarrow> bool \<Rightarrow> bool \<Rightarrow> unit io" where
  "run_demo e a notebook_id reranker_enabled skip_raptor =
     seq (when_do (\<not> arg_no_demo a)
           (bind (query_stateless e notebook_id
                    ''What are the key policies mentioned in the documents?''
                    (arg_model a) (arg_top_k a) (arg_max_sources a) reranker_enabled skip_raptor)
              (\<lambda>_.
            query_conversational e notebook_id
              [''What is the work from home policy?'',
               ''What are the eligibility requirements for it?'',
               ''Are there any exceptions to this policy?'']
              (arg_model a) (arg_max_history a))))
         (block [print [Lit (nl @ bar)], print [Lit ''Example Complete!''], print [Lit bar]])"

text \<open>Lines 465 to 513.\<close>

definition run_queries :: "env \<Rightarrow> args \<Rightarrow> pyval \<Rightarrow> unit io" where
  "run_queries e a notebook_id =
     (let reranker_enabled = \<not> arg_no_reranker a;
          skip_raptor = \<not> arg_include_raptor a
      in if truthy (py_opt PStr (arg_query a)) then
           bind (query_stateless e notebook_id (the (arg_query a))
                   (arg_model a) (arg_top_k a) (arg_max_sources a) reranker_enabled skip_raptor)
             (\<lambda>_.
           if arg_no_demo a then
             block [print [Lit (nl @ bar)], print [Lit ''Query Complete!''], print [Lit bar]]
           else run_demo e a notebook_id reranker_enabled skip_raptor)
         else run_demo e a notebook_id reranker_enabled skip_raptor)"

text \<open>Lines 444 to 450.\<close>

definition print_banner :: "args \<Rightarrow> unit io" where
  "print_banner a =
     bind (read BASE_URL) (\<lambda>base_url.
     block
      [print [Lit bar],
       print [Lit ''DBNotebook Query API Example''],
       print [Lit bar],
       print [Lit ''API URL: '', Str (PStr base_url)],
       print [Lit ''Notebook ID: '', Str (PStr (arg_notebook a))],
       when_do (truthy (py_opt PStr (arg_model a)))
         (print [Lit ''Model: '', Str (py_opt PStr (arg_model a))])])"

text \<open>
  \<^verbatim>\<open>main\<close> returns normally (exit status 0) or an exception leaves it (a traceback and
  exit status 1); the script never calls \<^verbatim>\<open>sys.exit\<close>.
\<close>

definition main :: "env \<Rightarrow> cli \<Rightarrow> unit io" where
  "main e c =
     bind (read (parse_args c)) (\<lambda>a.
     seq (update_globals a)
    (if arg_list_models a then list_models
     else if arg_list_notebooks a then bind (list_notebooks e) (\<lambda>_. ret ())
     else
       seq (print_banner a)
      (bind (list_notebooks e) (\<lambda>notebooks.
       if \<not> truthy notebooks then
         print [Lit (nl @ ''No notebooks found. Please create a notebook first.'')]
       else
         bind (choose_notebook a notebooks) (\<lambda>notebook_id.
         run_queries e a notebook_id)))))"

text \<open>A run of the script: the module is loaded, then \<^verbatim>\<open>main()\<close> is called.\<close>

definition script :: "env \<Rightarrow> cli \<Rightarrow> (error + unit) \<times> state" where
  "script e c = main e c (module_init e)"

section \<open>Notions the properties are stated with\<close>

text \<open>The request a query function posts from a state, given its payload.\<close>

definition post_query :: "state \<Rightarrow> (string \<times> pyval) list \<Rightarrow> request" where
  "post_query st payload =
     \<lparr>req_method = POST, req_url = BASE_URL st @ ''/api/query'', req_headers = HEADERS st,
      req_json = Some payload\<rparr>"

text \<open>The request of one turn of a conversation.\<close>

definition turn_request :: "state \<Rightarrow> pyval \<Rightarrow> string \<Rightarrow> string option \<Rightarrow> int \<Rightarrow> string \<Rightarrow> request" where
  "turn_request st nb sid m mh q = post_query st (conversational_payload nb q sid m mh)"

text \<open>The requests a statement issues when it runs from a state, in order.\<close>

definition new_requests :: "'a io \<Rightarrow> state \<Rightarrow> request list" where
  "new_requests m st = drop (length (sent st)) (sent (snd (m st)))"

text \<open>The line that reports a response whose status is not 200.\<close>

definition error_line :: "string \<Rightarrow> response \<Rightarrow> line" where
  "error_line prefix r =
     [Lit (prefix @ ''Error: ''), Str (PInt (status_code r)), Lit '' - '', Str (PStr (resp_text r))]"

text \<open>A statement that changes nothing but the console, whether it returns or raises.\<close>

definition prints_only :: "'a io \<Rightarrow> bool" where
  "prints_only m = (\<forall>st. \<exists>out. snd (m st) = st\<lparr>stdout := stdout st @ out\<rparr>)"

text \<open>A statement that prints and returns, and never raises.\<close>

definition just_prints :: "unit io \<Rightarrow> bool" where
  "just_prints m = (\<forall>st. \<exists>out. m st = (Inr (), st\<lparr>stdout := stdout st @ out\<rparr>))"

text \<open>
  The sparse-payload property in the specification's words: a field is one the caller
  supplied a non-default value for. \<open>notebook_id\<close> and \<open>query\<close> have no default and are
  always supplied; the defaults of the others are those of lines 161 to 165; the caller
  has no parameter for any other field.
\<close>

definition supplied_non_default ::
  "string option \<Rightarrow> int option \<Rightarrow> int \<Rightarrow> bool \<Rightarrow> bool \<Rightarrow> string \<Rightarrow> bool" where
  "supplied_non_default model top_k max_sources reranker_enabled skip_raptor k =
     (k = ''notebook_id'' \<or> k = ''query'' \<or>
      (k = ''model'' \<and> model \<noteq> None) \<or>
      (k = ''top_k'' \<and> top_k \<noteq> None) \<or>
      (k = ''max_sources'' \<and> max_sources \<noteq> 6) \<or>
      (k = ''reranker_enabled'' \<and> reranker_enabled \<noteq> True) \<or>
      (k = ''skip_raptor'' \<and> skip_raptor \<noteq> True))"

subsection \<open>Concrete servers\<close>

text \<open>A server that answers every request with status 500.\<close>

definition failing_server :: env where
  "failing_server =
     \<lparr>server = (\<lambda>h r. Reply \<lparr>status_code = 500, resp_text = ''Internal Server Error'',
                               resp_json = None\<rparr>),
      uuid4 = (\<lambda>n. if n = 0 then ''5f0c8a52-0000-4000-8000-000000000000''
                    else ''9b2e4d17-0000-4000-8000-000000000001''),
      environ = (\<lambda>k. None)\<rparr>"

text \<open>
  A server whose answer has status 200 and one source without a \<open>score\<close>:
  \<^verbatim>\<open>{"response": "Employees may work remotely.",
    "sources": [{"filename": "handbook.pdf", "snippet": "Employees may..."}]}\<close>
\<close>

definition missing_score_server :: env where
  "missing_score_server =
     \<lparr>server = (\<lambda>h r. Reply \<lparr>status_code = 200, resp_text = [],
         resp_json = Some (PDict
           [(''response'', PStr ''Employees may work remotely.''),
            (''sources'', PList [PDict [(''filename'', PStr ''handbook.pdf''),
                                        (''snippet'', PStr ''Employees may...'')]])])\<rparr>),
      uuid4 = (\<lambda>n. ''5f0c8a52-0000-4000-8000-000000000000''),
      environ = (\<lambda>k. None)\<rparr>"

section \<open>Printing, and the one request of a query\<close>

lemmas io_defs = ret_def lift_def bind_def seq_def when_do_def read_def print_def http_def
  requests_get_def requests_post_def response_json_def uuid4_str_def

lemma prints_onlyI: "(\<And>st. \<exists>out. snd (m st) = st\<lparr>stdout := stdout st @ out\<rparr>) \<Longrightarrow> prints_only m"
  by (simp add: prints_only_def)

lemma prints_onlyD: "prints_only m \<Longrightarrow> \<exists>out. snd (m st) = st\<lparr>stdout := stdout st @ out\<rparr>"
  by (simp add: prints_only_def)

lemma same_state: "(st::state) = st\<lparr>stdout := stdout st @ []\<rparr>"
  by simp

lemma prints_only_ret: "prints_only (ret x)"
  unfolding prints_only_def ret_def by (auto intro: exI[of _ "[]"])

lemma prints_only_lift: "prints_only (lift r)"
  unfolding prints_only_def lift_def by (auto intro: exI[of _ "[]"])

lemma prints_only_read: "prints_only (read f)"
  unfolding prints_only_def read_def by (auto intro: exI[of _ "[]"])

lemma prints_only_response_json: "prints_only (response_json r)"
  unfolding response_json_def by (rule prints_only_lift)

lemma prints_only_print: "prints_only (print l)"
  unfolding prints_only_def print_def by auto

lemma prints_only_bind:
  assumes m: "prints_only m" and f: "\<And>x. prints_only (f x)"
  shows "prints_only (bind m f)"
proof (rule prints_onlyI)
  fix st
  obtain out where o: "snd (m st) = st\<lparr>stdout := stdout st @ out\<rparr>"
    using prints_onlyD[OF m] by blast
  show "\<exists>out. snd (bind m f st) = st\<lparr>stdout := stdout st @ out\<rparr>"
  proof (cases "fst (m st)")
    case (Inl err)
    then have "snd (bind m f st) = snd (m st)"
      by (cases "m st") (simp add: bind_def)
    with o show ?thesis by auto
  next
    case (Inr x)
    then have b: "bind m f st = f x (snd (m st))"
      by (cases "m st") (simp add: bind_def)
    obtain out' where "snd (f x (snd (m st))) = (snd (m st))\<lparr>stdout := stdout (snd (m st)) @ out'\<rparr>"
      using prints_onlyD[OF f] by blast
    with o b have "snd (bind m f st) = st\<lparr>stdout := stdout st @ (out @ out')\<rparr>"
      by simp
    then show ?thesis by blast
  qed
qed

lemma prints_only_seq: "prints_only m \<Longrightarrow> prints_only n \<Longrightarrow> prints_only (seq m n)"
  unfolding seq_def by (rule prints_only_bind)

lemma prints_only_when: "prints_only m \<Longrightarrow> prints_only (when_do b m)"
  unfolding when_do_def by (simp add: prints_only_ret)

lemma prints_only_if: "prints_only m \<Longrightarrow> prints_only n \<Longrightarrow> prints_only (if b then m else n)"
  by simp

lemma prints_only_prod: "(\<And>a b. prints_only (f a b)) \<Longrightarrow> prints_only (case_prod f p)"
  by (cases p) simp

lemma prints_only_for_each: "(\<And>x. prints_only (body x)) \<Longrightarrow> prints_only (for_each xs body)"
  by (induction xs) (simp_all add: prints_only_ret prints_only_seq)

lemma prints_only_block_Nil: "prints_only (block [])"
  by (simp add: prints_only_ret)

lemma prints_only_block_Cons: "prints_only m \<Longrightarrow> prints_only (block ms) \<Longrightarrow> prints_only (block (m # ms))"
  by (simp add: prints_only_seq)

lemmas prints_only_intros =
  prints_only_ret prints_only_lift prints_only_read prints_only_response_json prints_only_print
  prints_only_bind prints_only_seq prints_only_when prints_only_if prints_only_prod
  prints_only_for_each prints_only_block_Nil prints_only_block_Cons

lemma prints_only_print_metadata: "prints_only (print_metadata md)"
  unfolding print_metadata_def by (intro prints_only_intros)

lemma prints_only_print_timings: "prints_only (print_timings md)"
  unfolding print_timings_def Let_def by (intro prints_only_intros)

lemma prints_only_print_source: "prints_only (print_source p)"
  unfolding print_source_def by (intro prints_only_intros)

lemma prints_only_print_sources: "prints_only (print_sources res)"
  unfolding print_sources_def by (intro prints_only_intros prints_only_print_source)

lemma prints_only_show_result: "prints_only (show_result r)"
  unfolding show_result_def
  by (intro prints_only_intros prints_only_print_metadata prints_only_print_timings
      prints_only_print_sources)

lemma prints_only_print_notebook: "prints_only (print_notebook nb)"
  unfolding print_notebook_def by (intro prints_only_intros)

lemma prints_only_list_models: "prints_only list_models"
  unfolding list_models_def by (intro prints_only_intros)

lemma just_printsD: "just_prints m \<Longrightarrow> \<exists>out. m st = (Inr (), st\<lparr>stdout := stdout st @ out\<rparr>)"
  by (simp add: just_prints_def)

lemma just_prints_print: "just_prints (print l)"
  unfolding just_prints_def print_def by auto

lemma just_prints_ret: "just_prints (ret ())"
  unfolding just_prints_def ret_def by (auto intro: exI[of _ "[]"])

lemma just_prints_seq:
  assumes m: "just_prints m" and n: "just_prints n"
  shows "just_prints (seq m n)"
  unfolding just_prints_def
proof
  fix st
  obtain out where o: "m st = (Inr (), st\<lparr>stdout := stdout st @ out\<rparr>)"
    using just_printsD[OF m] by blast
  obtain out' where o': "n (st\<lparr>stdout := stdout st @ out\<rparr>) =
      (Inr (), st\<lparr>stdout := stdout st @ out\<rparr>\<lparr>stdout := stdout (st\<lparr>stdout := stdout st @ out\<rparr>) @ out'\<rparr>)"
    using just_printsD[OF n] by blast
  have "seq m n st = (Inr (), st\<lparr>stdout := stdout st @ (out @ out')\<rparr>)"
    using o o' by (simp add: seq_def bind_def)
  then show "\<exists>out. seq m n st = (Inr (), st\<lparr>stdout := stdout st @ out\<rparr>)" by blast
qed

lemma just_prints_when: "just_prints m \<Longrightarrow> just_prints (when_do b m)"
  unfolding when_do_def by (simp add: just_prints_ret)

lemma just_prints_block_Nil: "just_prints (block [])"
  by (simp add: just_prints_ret)

lemma just_prints_block_Cons: "just_prints m \<Longrightarrow> just_prints (block ms) \<Longrightarrow> just_prints (block (m # ms))"
  by (simp add: just_prints_seq)

lemmas just_prints_intros = just_prints_print just_prints_ret just_prints_seq just_prints_when
  just_prints_block_Nil just_prints_block_Cons

lemma post_shape:
  assumes pre: "just_prints pre" and k: "\<And>r. prints_only (k r)"
  shows "\<exists>out. snd (seq pre (bind (read BASE_URL) (\<lambda>b. bind (read HEADERS) (\<lambda>h.
            bind (requests_post e (b @ ''/api/query'') h payload) k))) st) =
          st\<lparr>stdout := stdout st @ out, sent := sent st @ [post_query st payload]\<rparr>"
proof -
  obtain out where o: "pre st = (Inr (), st\<lparr>stdout := stdout st @ out\<rparr>)"
    using just_printsD[OF pre] by blast
  let ?st1 = "st\<lparr>stdout := stdout st @ out\<rparr>"
  let ?st2 = "?st1\<lparr>sent := sent st @ [post_query st payload]\<rparr>"
  show ?thesis
  proof (cases "server e (sent st) (post_query st payload)")
    case Transport_failure
    then have "snd (seq pre (bind (read BASE_URL) (\<lambda>b. bind (read HEADERS) (\<lambda>h.
            bind (requests_post e (b @ ''/api/query'') h payload) k))) st) = ?st2"
      using o by (simp add: io_defs post_query_def)
    then show ?thesis by auto
  next
    case (Reply r)
    then have "seq pre (bind (read BASE_URL) (\<lambda>b. bind (read HEADERS) (\<lambda>h.
            bind (requests_post e (b @ ''/api/query'') h payload) k))) st = k r ?st2"
      using o by (simp add: io_defs post_query_def)
    moreover obtain out' where "snd (k r ?st2) = ?st2\<lparr>stdout := stdout ?st2 @ out'\<rparr>"
      using prints_onlyD[OF k] by blast
    ultimately have "snd (seq pre (bind (read BASE_URL) (\<lambda>b. bind (read HEADERS) (\<lambda>h.
            bind (requests_post e (b @ ''/api/query'') h payload) k))) st) =
          st\<lparr>stdout := stdout st @ (out @ out'), sent := sent st @ [post_query st payload]\<rparr>"
      by simp
    then show ?thesis by blast
  qed
qed

lemma query_stateless_state:
  "\<exists>out. snd (query_stateless e nb q m tk ms re sr st) =
     st\<lparr>stdout := stdout st @ out,
        sent := sent st @ [post_query st (stateless_payload nb q m tk ms re sr)]\<rparr>"
  unfolding query_stateless_def Let_def
  by (rule post_shape) (intro just_prints_intros, intro prints_only_intros prints_only_show_result)

lemma conversational_turn_state:
  "\<exists>out. snd (conversational_turn e nb sid m mh (i, q) st) =
     st\<lparr>stdout := stdout st @ out,
        sent := sent st @ [post_query st (conversational_payload nb q sid m mh)]\<rparr>"
  unfolding conversational_turn_def Let_def prod.case
  by (rule post_shape) (intro just_prints_intros, intro prints_only_intros)

lemma new_requests_query_stateless:
  "new_requests (query_stateless e nb q m tk ms re sr) st =
     [post_query st (stateless_payload nb q m tk ms re sr)]"
  using query_stateless_state[of e nb q m tk ms re sr st] by (auto simp: new_requests_def)

lemma map_of_stateless_payload:
  "map_of (stateless_payload nb q m tk ms re sr) k =
     (if k = ''notebook_id'' then Some nb
      else if k = ''query'' then Some (PStr q)
      else if k = ''include_sources'' then Some (PBool True)
      else if k = ''max_sources'' then Some (PInt ms)
      else if k = ''model'' then (case m of None \<Rightarrow> None | Some s \<Rightarrow> if s = [] then None else Some (PStr s))
      else if k = ''top_k'' then (case tk of None \<Rightarrow> None | Some i \<Rightarrow> if i = 0 then None else Some (PInt i))
      else if k = ''reranker_enabled'' then (if re then None else Some (PBool False))
      else if k = ''skip_raptor'' then (if sr then None else Some (PBool False))
      else None)"
  by (simp add: stateless_payload_def Let_def py_opt_def AList.update_conv' split: option.splits)

lemma distinct_stateless_payload: "distinct (map fst (stateless_payload nb q m tk ms re sr))"
  by (simp add: stateless_payload_def Let_def py_opt_def AList.distinct_update split: option.splits)

lemma post_shape_reply:
  assumes pre: "just_prints pre"
    and r: "server e (sent st) (post_query st payload) = Reply r"
  shows "\<exists>out. seq pre (bind (read BASE_URL) (\<lambda>b. bind (read HEADERS) (\<lambda>h.
            bind (requests_post e (b @ ''/api/query'') h payload) k))) st =
          k r (st\<lparr>stdout := stdout st @ out, sent := sent st @ [post_query st payload]\<rparr>)"
proof -
  obtain out where o: "pre st = (Inr (), st\<lparr>stdout := stdout st @ out\<rparr>)"
    using just_printsD[OF pre] by blast
  have "seq pre (bind (read BASE_URL) (\<lambda>b. bind (read HEADERS) (\<lambda>h.
            bind (requests_post e (b @ ''/api/query'') h payload) k))) st =
          k r (st\<lparr>stdout := stdout st @ out, sent := sent st @ [post_query st payload]\<rparr>)"
    using o r by (simp add: io_defs post_query_def)
  then show ?thesis by blast
qed

section \<open>The loop over the turns of a conversation\<close>

lemma for_each_Cons_Inl:
  "fst (body x st) = Inl err \<Longrightarrow> for_each (x # xs) body st = (Inl err, snd (body x st))"
  by (cases "body x st") (simp add: seq_def bind_def)

lemma for_each_Cons_Inr:
  "fst (body x st) = Inr u \<Longrightarrow> for_each (x # xs) body st = for_each xs body (snd (body x st))"
  by (cases "body x st") (simp add: seq_def bind_def)

lemma turn_state':
  "\<exists>out. snd (conversational_turn e nb sid m mh (i, q) st) =
     st\<lparr>stdout := stdout st @ out, sent := sent st @ [turn_request st nb sid m mh q]\<rparr>"
  unfolding turn_request_def by (rule conversational_turn_state)

lemma turns_state:
  "\<exists>n out. n \<le> length qs \<and>
     snd (for_each (enumerate i qs) (conversational_turn e nb sid m mh) st) =
       st\<lparr>stdout := stdout st @ out,
          sent := sent st @ map (turn_request st nb sid m mh) (take n qs)\<rparr> \<and>
     (fst (for_each (enumerate i qs) (conversational_turn e nb sid m mh) st) = Inr () \<longrightarrow>
        n = length qs) \<and>
     (qs \<noteq> [] \<longrightarrow> 0 < n)"
proof (induction qs arbitrary: i st)
  case Nil
  show ?case
    by (rule exI[of _ 0], rule exI[of _ "[]"]) (simp add: ret_def)
next
  case (Cons q qs)
  let ?turn = "conversational_turn e nb sid m mh"
  obtain out where o: "snd (?turn (i, q) st) =
      st\<lparr>stdout := stdout st @ out, sent := sent st @ [turn_request st nb sid m mh q]\<rparr>"
    using turn_state'[of e nb sid m mh i q st] by blast
  let ?st1 = "st\<lparr>stdout := stdout st @ out, sent := sent st @ [turn_request st nb sid m mh q]\<rparr>"
  have e: "enumerate i (q # qs) = (i, q) # enumerate (Suc i) qs" by simp
  show ?case
  proof (cases "fst (?turn (i, q) st)")
    case (Inl err)
    have r: "for_each (enumerate i (q # qs)) ?turn st = (Inl err, ?st1)"
      unfolding e using for_each_Cons_Inl[of ?turn "(i, q)" st err "enumerate (Suc i) qs"] Inl o by simp
    show ?thesis
      by (rule exI[of _ "Suc 0"], rule exI[of _ out]) (simp only: r, simp)
  next
    case (Inr u)
    have r: "for_each (enumerate i (q # qs)) ?turn st = for_each (enumerate (Suc i) qs) ?turn ?st1"
      unfolding e using for_each_Cons_Inr[of ?turn "(i, q)" st u "enumerate (Suc i) qs"] Inr o by simp
    obtain n out' where n: "n \<le> length qs"
      and s: "snd (for_each (enumerate (Suc i) qs) ?turn ?st1) =
          ?st1\<lparr>stdout := stdout ?st1 @ out',
               sent := sent ?st1 @ map (turn_request ?st1 nb sid m mh) (take n qs)\<rparr>"
      and f: "fst (for_each (enumerate (Suc i) qs) ?turn ?st1) = Inr () \<longrightarrow> n = length qs"
      using Cons.IH[of "Suc i" ?st1] by blast
    have t: "turn_request ?st1 nb sid m mh = turn_request st nb sid m mh"
      by (rule ext) (simp add: turn_request_def post_query_def)
    show ?thesis
      by (rule exI[of _ "Suc n"], rule exI[of _ "out @ out'"]) (simp only: r s t, use n f in simp)
  qed
qed

lemma seq_Inr: "m st = (Inr (), st') \<Longrightarrow> seq m n st = n st'"
  by (simp add: seq_def bind_def)

lemma bind_Inr: "m st = (Inr x, st') \<Longrightarrow> bind m f st = f x st'"
  by (simp add: bind_def)

lemma bind_Inl: "m st = (Inl err, st') \<Longrightarrow> bind m f st = (Inl err, st')"
  by (simp add: bind_def)

lemma query_conversational_state:
  "\<exists>n out. n \<le> length qs \<and>
     snd (query_conversational e nb qs m mh st) =
       st\<lparr>stdout := stdout st @ out,
          sent := sent st @ map (turn_request st nb (uuid4 e (uuid_calls st)) m mh) (take n qs),
          uuid_calls := Suc (uuid_calls st)\<rparr> \<and>
     (fst (query_conversational e nb qs m mh st) = Inr () \<longrightarrow> n = length qs)"
proof -
  let ?sid = "uuid4 e (uuid_calls st)"
  let ?b0 = "block [print [Lit (nl @ bar)],
            print [Lit ''Conversational Queries (With Memory)''], print [Lit bar]]"
  let ?b1 = "block [print [Lit ''Session ID: '', Str (PStr ?sid)],
            when_do (truthy (py_opt PStr m)) (print [Lit ''Model: '', Str (py_opt PStr m)]),
            print [Lit ''Max History: '', Str (PInt mh)]]"
  have "just_prints ?b0"
    by (intro just_prints_intros)
  then obtain out0 where o0: "?b0 st = (Inr (), st\<lparr>stdout := stdout st @ out0\<rparr>)"
    using just_printsD by blast
  let ?st0 = "st\<lparr>stdout := stdout st @ out0\<rparr>"
  let ?st1 = "st\<lparr>stdout := stdout st @ out0, uuid_calls := Suc (uuid_calls st)\<rparr>"
  have "just_prints ?b1"
    by (intro just_prints_intros)
  then obtain out1 where o1: "?b1 ?st1 = (Inr (), ?st1\<lparr>stdout := stdout ?st1 @ out1\<rparr>)"
    using just_printsD by blast
  let ?st2 = "st\<lparr>stdout := stdout st @ (out0 @ out1), uuid_calls := Suc (uuid_calls st)\<rparr>"
  have u: "uuid4_str e ?st0 = (Inr ?sid, ?st1)"
    by (simp add: uuid4_str_def)
  have "query_conversational e nb qs m mh st =
      for_each (enumerate 1 qs) (conversational_turn e nb ?sid m mh)
        (?st1\<lparr>stdout := stdout ?st1 @ out1\<rparr>)"
    unfolding query_conversational_def
    by (simp only: seq_Inr[of ?b0 st, OF o0] bind_Inr[of "uuid4_str e" ?st0, OF u]
        seq_Inr[of ?b1 ?st1, OF o1])
  moreover have "?st1\<lparr>stdout := stdout ?st1 @ out1\<rparr> = ?st2"
    by (cases st) simp
  ultimately have q: "query_conversational e nb qs m mh st =
      for_each (enumerate 1 qs) (conversational_turn e nb ?sid m mh) ?st2"
    by (simp only:)
  obtain n out where n: "n \<le> length qs"
    and s: "snd (for_each (enumerate 1 qs) (conversational_turn e nb ?sid m mh) ?st2) =
       ?st2\<lparr>stdout := stdout ?st2 @ out,
          sent := sent ?st2 @ map (turn_request ?st2 nb ?sid m mh) (take n qs)\<rparr>"
    and f: "fst (for_each (enumerate 1 qs) (conversational_turn e nb ?sid m mh) ?st2) = Inr ()
        \<longrightarrow> n = length qs"
    using turns_state[of qs 1 e nb ?sid m mh ?st2] by blast
  have t: "turn_request ?st2 nb ?sid m mh = turn_request st nb ?sid m mh"
    by (rule ext) (simp add: turn_request_def post_query_def)
  show ?thesis
    by (rule exI[of _ n], rule exI[of _ "out0 @ out1 @ out"]) (simp only: q s t, use n f in simp)
qed

lemma map_of_conversational_payload:
  "map_of (conversational_payload nb q sid m mh) k =
     (if k = ''notebook_id'' then Some nb
      else if k = ''query'' then Some (PStr q)
      else if k = ''session_id'' then Some (PStr sid)
      else if k = ''include_sources'' then Some (PBool True)
      else if k = ''max_sources'' then Some (PInt 2)
      else if k = ''max_history'' then Some (PInt mh)
      else if k = ''model'' then (case m of None \<Rightarrow> None | Some s \<Rightarrow> if s = [] then None else Some (PStr s))
      else None)"
  by (simp add: conversational_payload_def Let_def py_opt_def AList.update_conv' split: option.splits)

lemma failed_turn:
  assumes "server e (sent st) (turn_request st nb sid m mh q) = Reply r"
    and "status_code r \<noteq> 200"
  shows "\<exists>out. conversational_turn e nb sid m mh (i, q) st =
      (Inr (), st\<lparr>stdout := stdout st @ out @ [error_line [] r],
                   sent := sent st @ [turn_request st nb sid m mh q]\<rparr>)"
proof -
  have "conversational_turn e nb sid m mh (i, q) st =
      (Inr (), st\<lparr>stdout := stdout st @
                     [[Lit nl, Rule 60],
                      [Lit ''Turn '', Str (PInt (int i)), Lit '': '', Str (PStr q)],
                      [Rule 60]] @ [error_line [] r],
                   sent := sent st @ [turn_request st nb sid m mh q]\<rparr>)"
    using assms
    by (simp add: conversational_turn_def io_defs Let_def turn_request_def post_query_def
        error_line_def)
  then show ?thesis by blast
qed

section \<open>The stateless query\<close>

text \<open>
  Claim C1, as amended. The one request \<^verbatim>\<open>query_stateless\<close> issues carries the payload
  of lines 191 to 205, whose keys are distinct and whose fields are exactly these:
  \<open>notebook_id\<close>, \<open>query\<close>, \<open>include_sources\<close> (always \<open>true\<close>) and \<open>max_sources\<close> (the
  caller's value, 6 when not given) are always present; \<open>model\<close> is present exactly when
  a non-empty model was given; \<open>top_k\<close> exactly when a non-zero value was given;
  \<open>reranker_enabled\<close> and \<open>skip_raptor\<close> exactly when the caller passed \<open>False\<close>, and
  then they are \<open>false\<close>; no other field is present.
\<close>

theorem stateless_payload_fields:
  "map req_json (new_requests (query_stateless e nb q m tk ms re sr) st) =
     [Some (stateless_payload nb q m tk ms re sr)] \<and>
   distinct (map fst (stateless_payload nb q m tk ms re sr)) \<and>
   (\<forall>k. map_of (stateless_payload nb q m tk ms re sr) k =
     (if k = ''notebook_id'' then Some nb
      else if k = ''query'' then Some (PStr q)
      else if k = ''include_sources'' then Some (PBool True)
      else if k = ''max_sources'' then Some (PInt ms)
      else if k = ''model'' then (case m of None \<Rightarrow> None | Some s \<Rightarrow> if s = [] then None else Some (PStr s))
      else if k = ''top_k'' then (case tk of None \<Rightarrow> None | Some i \<Rightarrow> if i = 0 then None else Some (PInt i))
      else if k = ''reranker_enabled'' then (if re then None else Some (PBool False))
      else if k = ''skip_raptor'' then (if sr then None else Some (PBool False))
      else None))"
  using map_of_stateless_payload[of nb q m tk ms re sr]
  by (simp add: new_requests_query_stateless post_query_def distinct_stateless_payload)

text \<open>
  Claim C1 as stated fails. With \<open>top_k = 0\<close> and every other parameter at its default,
  \<open>max_sources\<close> and \<open>include_sources\<close> are in the payload though the caller supplied no
  non-default value for them, and \<open>top_k\<close> is absent though the caller supplied one.
\<close>

theorem payload_not_iff_supplied:
  "\<not> (''max_sources'' \<in> fst ` set (stateless_payload (PStr ''nb-1'') ''hi'' None (Some 0) 6 True True)
        \<longleftrightarrow> supplied_non_default None (Some 0) 6 True True ''max_sources'') \<and>
   \<not> (''include_sources'' \<in> fst ` set (stateless_payload (PStr ''nb-1'') ''hi'' None (Some 0) 6 True True)
        \<longleftrightarrow> supplied_non_default None (Some 0) 6 True True ''include_sources'') \<and>
   \<not> (''top_k'' \<in> fst ` set (stateless_payload (PStr ''nb-1'') ''hi'' None (Some 0) 6 True True)
        \<longleftrightarrow> supplied_non_default None (Some 0) 6 True True ''top_k'')"
  by (simp add: stateless_payload_def py_opt_def supplied_non_default_def)

text \<open>
  Claim C2 fails on the code. The server answers with status 200 and a source that has
  no \<open>score\<close>. The missing metadata fields are printed as \<open>N/A\<close>, but line 248 formats
  the placeholder \<^verbatim>\<open>'N/A'\<close> with \<^verbatim>\<open>:.3f\<close>: the run ends in \<open>ValueError\<close> after the
  source's first line, and its score and snippet are never printed.
\<close>

theorem missing_score_raises:
  "fst (query_stateless missing_score_server (PStr ''nb-1'') ''What is the policy?'' None None 6
          True True (module_init missing_score_server)) = Inl ValueError \<and>
   stdout (snd (query_stateless missing_score_server (PStr ''nb-1'') ''What is the policy?'' None
          None 6 True True (module_init missing_score_server))) =
        [[Lit (nl @ bar)], [Lit ''Stateless Query (No Memory)''], [Lit bar],
         [Lit ''Query: '', Str (PStr ''What is the policy?'')],
         [Lit nl, Rule 60], [Lit ''Response:''], [Rule 60],
         [Str (PStr ''Employees may work remotely.'')],
         [Lit nl, Rule 60], [Lit ''Metadata:''],
         [Lit ''  Execution time: '', Str (PStr ''N/A''), Lit ''ms''],
         [Lit ''  Model: '', Str (PStr ''N/A'')],
         [Lit ''  Stateless: '', Str (PStr ''N/A'')],
         [Lit ''  Node count: '', Str (PStr ''N/A'')],
         [Lit nl, Rule 60], [Lit ''Sources ('', Str (PInt 1), Lit ''):''],
         [Lit (nl @ ''  [''), Str (PInt 1), Lit ''] '', Str (PStr ''handbook.pdf'')]]"
  by (simp add: query_stateless_def show_result_def print_metadata_def print_timings_def
      print_sources_def print_source_def io_defs missing_score_server_def module_init_def
      stateless_payload_def py_opt_def getenv_def make_headers_def Let_def)

text \<open>
  Claim C6. With \<open>top_k\<close> unset and \<open>reranker_enabled\<close> at its default, the body of the
  request has neither the key \<open>top_k\<close> nor the key \<open>reranker_enabled\<close>; with
  \<open>top_k = 10\<close> and \<open>reranker_enabled = False\<close> it has \<open>top_k\<close> with the value 10 and
  \<open>reranker_enabled\<close> with the value \<open>false\<close>.
\<close>

theorem top_k_reranker_round_trip: 
  "\<exists>p p'. map req_json (new_requests (query_stateless e nb q m None ms True sr) st) = [Some p] \<and>
      ''top_k'' \<notin> fst ` set p \<and> ''reranker_enabled'' \<notin> fst ` set p \<and>
      map req_json (new_requests (query_stateless e nb q m (Some 10) ms False sr) st) = [Some p'] \<and>
      map_of p' ''top_k'' = Some (PInt 10) \<and> map_of p' ''reranker_enabled'' = Some (PBool False)"
  by (simp add: new_requests_query_stateless post_query_def map_of_stateless_payload
      flip: map_of_eq_None_iff)

text \<open>
  Claim C7. When the response to the request of \<^verbatim>\<open>query_stateless\<close> has a status other
  than 200, the function returns \<open>None\<close> (it does not raise), the request is the only one
  it issues, and the last line it prints gives the status code and the body.
\<close>

theorem query_stateless_non_200:
  assumes "server e (sent st) (post_query st (stateless_payload nb q m tk ms re sr)) = Reply r"
    and "status_code r \<noteq> 200"
  shows "fst (query_stateless e nb q m tk ms re sr st) = Inr PNone \<and>
         new_requests (query_stateless e nb q m tk ms re sr) st =
           [post_query st (stateless_payload nb q m tk ms re sr)] \<and>
         (\<exists>out. stdout (snd (query_stateless e nb q m tk ms re sr st)) =
            stdout st @ out @ [error_line nl r])"
proof -
  have "\<exists>out. query_stateless e nb q m tk ms re sr st =
      (if status_code r \<noteq> 200
       then seq (print [Lit (nl @ ''Error: ''), Str (PInt (status_code r)), Lit '' - '',
                        Str (PStr (resp_text r))]) (ret PNone)
       else show_result r)
      (st\<lparr>stdout := stdout st @ out,
          sent := sent st @ [post_query st (stateless_payload nb q m tk ms re sr)]\<rparr>)"
    unfolding query_stateless_def Let_def
    by (rule post_shape_reply[OF _ assms(1)]) (intro just_prints_intros)
  then have "fst (query_stateless e nb q m tk ms re sr st) = Inr PNone \<and>
      (\<exists>out. stdout (snd (query_stateless e nb q m tk ms re sr st)) =
            stdout st @ out @ [error_line nl r])"
    using assms(2) by (auto simp: io_defs error_line_def)
  then show ?thesis
    by (simp add: new_requests_query_stateless)
qed

theorem query_stateless_non_200_witness:
  "fst (query_stateless failing_server (PStr ''nb-1'') ''What is the policy?'' None None 6 True True
          (module_init failing_server)) = Inr PNone \<and>
   new_requests (query_stateless failing_server (PStr ''nb-1'') ''What is the policy?'' None None 6 True True)
          (module_init failing_server) =
     [post_query (module_init failing_server)
        (stateless_payload (PStr ''nb-1'') ''What is the policy?'' None None 6 True True)] \<and>
   (\<exists>out. stdout (snd (query_stateless failing_server (PStr ''nb-1'') ''What is the policy?''
                          None None 6 True True (module_init failing_server))) =
      stdout (module_init failing_server) @ out @
      [error_line nl \<lparr>status_code = 500, resp_text = ''Internal Server Error'', resp_json = None\<rparr>])"
proof -
  let ?r = "\<lparr>status_code = 500, resp_text = ''Internal Server Error'', resp_json = None\<rparr>"
  have h1: "server failing_server (sent (module_init failing_server))
       (post_query (module_init failing_server)
          (stateless_payload (PStr ''nb-1'') ''What is the policy?'' None None 6 True True)) = Reply ?r"
    by (simp add: failing_server_def)
  have h2: "status_code ?r \<noteq> 200" by simp
  show ?thesis
    by (rule query_stateless_non_200[OF h1 h2])
qed

text \<open>
  Claim C10. A \<open>top_k\<close> that is falsy (zero, or not given) is left out of the payload:
  the payload, and the whole run of \<^verbatim>\<open>query_stateless\<close>, are those of a call without
  \<open>top_k\<close>.
\<close>

theorem falsy_top_k_omitted:
  assumes "\<not> truthy (py_opt PInt top_k)"
  shows "stateless_payload nb q m top_k ms re sr = stateless_payload nb q m None ms re sr \<and>
         ''top_k'' \<notin> fst ` set (stateless_payload nb q m top_k ms re sr) \<and>
         query_stateless e nb q m top_k ms re sr = query_stateless e nb q m None ms re sr"
proof -
  have p: "stateless_payload nb q m top_k ms re sr = stateless_payload nb q m None ms re sr"
    using assms by (simp add: stateless_payload_def py_opt_def)
  have "map_of (stateless_payload nb q m None ms re sr) ''top_k'' = None"
    by (simp add: map_of_stateless_payload)
  then have k: "''top_k'' \<notin> fst ` set (stateless_payload nb q m None ms re sr)"
    by (simp add: map_of_eq_None_iff)
  have "query_stateless e nb q m top_k ms re sr = query_stateless e nb q m None ms re sr"
    using assms p by (simp add: query_stateless_def when_do_def py_opt_def)
  with p k show ?thesis by simp
qed

theorem falsy_top_k_omitted_witness:
  "\<not> truthy (py_opt PInt (Some 0)) \<and>
   stateless_payload (PStr ''nb-1'') ''What is the policy?'' None (Some 0) 6 True True =
     [(''notebook_id'', PStr ''nb-1''), (''query'', PStr ''What is the policy?''),
      (''include_sources'', PBool True), (''max_sources'', PInt 6)] \<and>
   ''top_k'' \<notin> fst ` set (stateless_payload (PStr ''nb-1'') ''What is the policy?'' None (Some 0) 6 True True)"
proof -
  have h: "\<not> truthy (py_opt PInt (Some 0))" by (simp add: py_opt_def)
  show ?thesis
    using h falsy_top_k_omitted[OF h, of "PStr ''nb-1''" "''What is the policy?''" None 6 True True failing_server]
    by (simp add: stateless_payload_def py_opt_def)
qed

section \<open>The conversation\<close>

text \<open>
  Claim C3. A run of \<^verbatim>\<open>query_conversational\<close> over a list of queries calls
  \<^verbatim>\<open>uuid.uuid4()\<close> exactly once. The requests it issues are, in list order, those of
  the first \<open>n\<close> queries, and of all of them when the run returns (a turn that raises
  ends the run, no turn being retried or skipped); each is a POST whose payload holds
  the query, that one session identifier, \<open>max_sources = 2\<close> and the caller's
  \<open>max_history\<close>.
\<close>

theorem conversation_one_session:
  "(\<exists>n. n \<le> length queries \<and>
     uuid_calls (snd (query_conversational e nb queries m mh st)) = Suc (uuid_calls st) \<and>
     new_requests (query_conversational e nb queries m mh) st =
       map (turn_request st nb (uuid4 e (uuid_calls st)) m mh) (take n queries) \<and>
     (fst (query_conversational e nb queries m mh st) = Inr () \<longrightarrow> n = length queries)) \<and>
   (\<forall>q sid. req_method (turn_request st nb sid m mh q) = POST \<and>
     (\<exists>p. req_json (turn_request st nb sid m mh q) = Some p \<and>
       map_of p ''query'' = Some (PStr q) \<and>
       map_of p ''session_id'' = Some (PStr sid) \<and>
       map_of p ''max_sources'' = Some (PInt 2) \<and>
       map_of p ''max_history'' = Some (PInt mh)))"
proof -
  obtain n out where n: "n \<le> length queries"
    and s: "snd (query_conversational e nb queries m mh st) =
       st\<lparr>stdout := stdout st @ out,
          sent := sent st @ map (turn_request st nb (uuid4 e (uuid_calls st)) m mh) (take n queries),
          uuid_calls := Suc (uuid_calls st)\<rparr>"
    and f: "fst (query_conversational e nb queries m mh st) = Inr () \<longrightarrow> n = length queries"
    using query_conversational_state[of queries e nb m mh st] by blast
  have 1: "\<exists>n. n \<le> length queries \<and>
     uuid_calls (snd (query_conversational e nb queries m mh st)) = Suc (uuid_calls st) \<and>
     new_requests (query_conversational e nb queries m mh) st =
       map (turn_request st nb (uuid4 e (uuid_calls st)) m mh) (take n queries) \<and>
     (fst (query_conversational e nb queries m mh st) = Inr () \<longrightarrow> n = length queries)"
    by (rule exI[of _ n]) (use n f in \<open>simp add: new_requests_def s\<close>)
  have 2: "\<forall>q sid. req_method (turn_request st nb sid m mh q) = POST \<and>
     (\<exists>p. req_json (turn_request st nb sid m mh q) = Some p \<and>
       map_of p ''query'' = Some (PStr q) \<and>
       map_of p ''session_id'' = Some (PStr sid) \<and>
       map_of p ''max_sources'' = Some (PInt 2) \<and>
       map_of p ''max_history'' = Some (PInt mh))"
    by (simp add: turn_request_def post_query_def map_of_conversational_payload)
  from 1 2 show ?thesis by (rule conjI)
qed

theorem conversation_one_session_witness:
  "uuid_calls (snd (query_conversational failing_server (PStr ''nb-1'')
       [''first question'', ''second question''] None 5 (module_init failing_server))) = 1 \<and>
   new_requests (query_conversational failing_server (PStr ''nb-1'')
       [''first question'', ''second question''] None 5) (module_init failing_server) =
     [turn_request (module_init failing_server) (PStr ''nb-1'')
        ''5f0c8a52-0000-4000-8000-000000000000'' None 5 ''first question'',
      turn_request (module_init failing_server) (PStr ''nb-1'')
        ''5f0c8a52-0000-4000-8000-000000000000'' None 5 ''second question'']"
proof -
  let ?run = "query_conversational failing_server (PStr ''nb-1'')
       [''first question'', ''second question''] None 5"
  have ok: "fst (?run (module_init failing_server)) = Inr ()"
    by (simp add: query_conversational_def conversational_turn_def io_defs failing_server_def
        module_init_def Let_def getenv_def make_headers_def py_opt_def)
  have sid: "uuid4 failing_server 0 = ''5f0c8a52-0000-4000-8000-000000000000''"
    by (simp add: failing_server_def)
  have u: "uuid_calls (module_init failing_server) = 0"
    by (simp add: module_init_def Let_def)
  show ?thesis
    using conversation_one_session[of "[''first question'', ''second question'']" failing_server "PStr ''nb-1''"
        None 5 "module_init failing_server"] ok
    by (auto simp: sid u)
qed

text \<open>
  Claim C8. In the loop of \<^verbatim>\<open>query_conversational\<close>, a turn whose response has a
  status other than 200 prints the status code and the body, and the loop goes on with
  the turns that remain; the request of the next turn, if there is one, is issued.
\<close>

theorem failed_turn_continues:
  assumes "server e (sent st) (turn_request st nb sid m mh q) = Reply r"
    and "status_code r \<noteq> 200"
  shows "(\<exists>out. for_each (enumerate i (q # qs)) (conversational_turn e nb sid m mh) st =
            for_each (enumerate (Suc i) qs) (conversational_turn e nb sid m mh)
              (st\<lparr>stdout := stdout st @ out @ [error_line [] r],
                  sent := sent st @ [turn_request st nb sid m mh q]\<rparr>)) \<and>
         (\<exists>more. new_requests
            (for_each (enumerate i (q # q' # qs')) (conversational_turn e nb sid m mh)) st =
              turn_request st nb sid m mh q # turn_request st nb sid m mh q' # more)"
proof -
  let ?turn = "conversational_turn e nb sid m mh"
  obtain out where o: "?turn (i, q) st =
      (Inr (), st\<lparr>stdout := stdout st @ out @ [error_line [] r],
                   sent := sent st @ [turn_request st nb sid m mh q]\<rparr>)"
    using failed_turn[OF assms] by blast
  let ?st1 = "st\<lparr>stdout := stdout st @ out @ [error_line [] r],
                   sent := sent st @ [turn_request st nb sid m mh q]\<rparr>"
  have step: "for_each (enumerate i (q # xs)) ?turn st = for_each (enumerate (Suc i) xs) ?turn ?st1"
    for xs
    using for_each_Cons_Inr[of ?turn "(i, q)" st "()" "enumerate (Suc i) xs"] o by simp
  have 1: "\<exists>out. for_each (enumerate i (q # qs)) ?turn st =
            for_each (enumerate (Suc i) qs) ?turn
              (st\<lparr>stdout := stdout st @ out @ [error_line [] r],
                  sent := sent st @ [turn_request st nb sid m mh q]\<rparr>)"
    using step by blast
  obtain n out' where n: "0 < n"
    and s: "snd (for_each (enumerate (Suc i) (q' # qs')) ?turn ?st1) =
       ?st1\<lparr>stdout := stdout ?st1 @ out',
          sent := sent ?st1 @ map (turn_request ?st1 nb sid m mh) (take n (q' # qs'))\<rparr>"
    using turns_state[of "q' # qs'" "Suc i" e nb sid m mh ?st1] by auto
  have t: "turn_request ?st1 nb sid m mh = turn_request st nb sid m mh"
    by (rule ext) (simp add: turn_request_def post_query_def)
  obtain k where k: "n = Suc k" using n by (cases n) auto
  have 2: "\<exists>more. new_requests (for_each (enumerate i (q # q' # qs')) ?turn) st =
              turn_request st nb sid m mh q # turn_request st nb sid m mh q' # more"
    unfolding new_requests_def step s t k by simp
  from 1 2 show ?thesis by (rule conjI)
qed

theorem failed_turn_continues_witness:
  "(\<exists>out. for_each (enumerate 1 [''first question'', ''second question''])
        (conversational_turn failing_server (PStr ''nb-1'') ''sid'' None 5)
        (module_init failing_server) =
      for_each (enumerate (Suc 1) [''second question''])
        (conversational_turn failing_server (PStr ''nb-1'') ''sid'' None 5)
        ((module_init failing_server)
          \<lparr>stdout := stdout (module_init failing_server) @ out @
             [error_line [] \<lparr>status_code = 500, resp_text = ''Internal Server Error'',
                              resp_json = None\<rparr>],
           sent := sent (module_init failing_server) @
             [turn_request (module_init failing_server) (PStr ''nb-1'') ''sid'' None 5
                ''first question'']\<rparr>)) \<and>
   (\<exists>more. new_requests (for_each (enumerate 1 [''first question'', ''second question''])
        (conversational_turn failing_server (PStr ''nb-1'') ''sid'' None 5))
        (module_init failing_server) =
      turn_request (module_init failing_server) (PStr ''nb-1'') ''sid'' None 5 ''first question'' #
      turn_request (module_init failing_server) (PStr ''nb-1'') ''sid'' None 5 ''second question'' #
      more)"
proof -
  let ?r = "\<lparr>status_code = 500, resp_text = ''Internal Server Error'', resp_json = None\<rparr>"
  have h1: "server failing_server (sent (module_init failing_server))
       (turn_request (module_init failing_server) (PStr ''nb-1'') ''sid'' None 5 ''first question'')
       = Reply ?r"
    by (simp add: failing_server_def)
  have h2: "status_code ?r \<noteq> 200" by simp
  show ?thesis
    by (rule failed_turn_continues[OF h1 h2])
qed

end
